theory Spec2Isabelle
  imports Complex_Main "HOL-Library.Word"
begin

section \<open>JavaScript values\<close>

text \<open>
  A JavaScript string is a sequence of UTF-16 code units, and \<open>s.length\<close> counts them.
  The Japanese message literals of the source are written below as their code units.
\<close>

type_synonym js_string = "16 word list"

definition ascii :: "string \<Rightarrow> js_string" where
  "ascii s = map of_char s"

text \<open>
  The values a parsed JSON body can hold in one of its fields, and \<open>undefined\<close> for a
  field that is missing. A number is the value of the parsed double. Object-valued fields
  are not modelled.
\<close>

datatype jsval =
    JUndefined
  | JNull
  | JBool bool
  | JNum real
  | JStr js_string
  | JArr "jsval list"

text \<open>\<open>!v\<close> is \<open>\<not> truthy v\<close>.\<close>

fun truthy :: "jsval \<Rightarrow> bool" where
  "truthy JUndefined = False"
| "truthy JNull = False"
| "truthy (JBool b) = b"
| "truthy (JNum x) = (x \<noteq> 0)"
| "truthy (JStr s) = (s \<noteq> [])"
| "truthy (JArr xs) = True"

text \<open>
  The \<open>length\<close> property: defined on strings and arrays, \<open>undefined\<close> (here \<open>None\<close>) on
  booleans and numbers. The source reads it only behind \<open>!v ||\<close>, so never on
  \<open>undefined\<close> or \<open>null\<close>, where JavaScript would throw.
\<close>

fun js_length :: "jsval \<Rightarrow> nat option" where
  "js_length (JStr s) = Some (length s)"
| "js_length (JArr xs) = Some (length xs)"
| "js_length v = None"

text \<open>\<open>v.length < n\<close>; the comparison \<open>undefined < n\<close> is false.\<close>

definition length_lt :: "jsval \<Rightarrow> nat \<Rightarrow> bool" where
  "length_lt v n = (case js_length v of None \<Rightarrow> False | Some k \<Rightarrow> k < n)"

text \<open>
  \<open>s.split(' ')\<close>: the fields between single spaces; \<open>n\<close> spaces give \<open>n + 1\<close> fields, some
  of them possibly empty.
\<close>

fun split_on :: "'a \<Rightarrow> 'a list \<Rightarrow> 'a list list" where
  "split_on sep [] = [[]]"
| "split_on sep (c # cs) =
     (if c = sep then [] # split_on sep cs
      else (case split_on sep cs of
              [] \<Rightarrow> [[c]]
            | f # fs \<Rightarrow> (c # f) # fs))"

definition space :: "16 word" where
  "space = 0x20"

text \<open>\<open>xs[i]\<close> on an array: \<open>undefined\<close> (here \<open>None\<close>) out of range.\<close>

fun index_opt :: "'a list \<Rightarrow> nat \<Rightarrow> 'a option" where
  "index_opt [] i = None"
| "index_opt (x # xs) 0 = Some x"
| "index_opt (x # xs) (Suc i) = index_opt xs i"

section \<open>Requests, responses and the environment\<close>

text \<open>
  The claims a token carries: the identity that the login handler signs, and the times
  of issue and of expiry that the token library adds (seconds); \<open>None\<close> stands for a
  claim that the token does not have.
\<close>

record claims =
  c_id :: nat
  c_email :: jsval
  c_role :: jsval
  c_iat :: "nat option"
  c_exp :: "nat option"

text \<open>
  What a handler reads of a request: the \<open>authorization\<close> header, the fields of the JSON
  body, the \<open>:id\<close> segment of the path as the store reads it, and \<open>req.user\<close>, which only
  \<open>authenticateToken\<close> writes.
\<close>

record request =
  authorization :: "js_string option"
  body_name :: jsval
  body_email :: jsval
  body_password :: jsval
  body_newPassword :: jsval
  body_role :: jsval
  params_id :: nat
  user :: "claims option"

text \<open>A row of \<open>SELECT id, name, email, role FROM users\<close>.\<close>

record public_row =
  r_id :: nat
  r_name :: jsval
  r_email :: jsval
  r_role :: jsval

text \<open>
  The JSON bodies the handlers build, and the two text bodies of \<open>res.sendStatus\<close>:
  \<open>TextBody m\<close> is the text \<open>m\<close>, and \<open>StatusText c\<close> is the text that the framework has
  for a status code \<open>c\<close> that the table below does not list.
\<close>

datatype payload =
    ErrorBody js_string
  | CreatedBody nat jsval jsval
  | LoginBody js_string js_string
  | MessageBody js_string
  | RowsBody "public_row list"
  | UpdatedBody nat jsval jsval jsval
  | TextBody js_string
  | StatusText nat

text \<open>
  The three ways the source answers: \<open>res.sendStatus(c)\<close>, \<open>res.status(c).json(p)\<close> and
  \<open>res.status(c).send()\<close>. \<open>Unanswered\<close> stands for a handler that throws outside its
  \<open>try\<close> block and so never answers.
\<close>

datatype response =
    SendStatus nat
  | Json nat payload
  | Send nat
  | Unanswered

fun status_of :: "response \<Rightarrow> nat option" where
  "status_of (SendStatus c) = Some c"
| "status_of (Json c p) = Some c"
| "status_of (Send c) = Some c"
| "status_of Unanswered = None"

text \<open>
  The message that the framework (\<open>express\<close>, not part of the sources) has for a status
  code, for the two codes that the sources pass to \<open>res.sendStatus\<close>.
\<close>

fun status_message :: "nat \<Rightarrow> js_string option" where
  "status_message c =
     (if c = 401 then Some (ascii ''Unauthorized'')
      else if c = 403 then Some (ascii ''Forbidden'')
      else None)"

text \<open>
  The body of an answer. \<open>res.sendStatus(c)\<close> sets the status and sends the message of
  the code as a text body; \<open>res.status(c).send()\<close> sends none.
\<close>

fun body_of :: "response \<Rightarrow> payload option" where
  "body_of (SendStatus c) =
     Some (case status_message c of
             None \<Rightarrow> StatusText c
           | Some m \<Rightarrow> TextBody m)"
| "body_of (Json c p) = Some p"
| "body_of (Send c) = None"
| "body_of Unanswered = None"

text \<open>A guard either answers itself or calls \<open>next()\<close> with the request it leaves.\<close>

datatype outcome =
    Respond response
  | Next request

text \<open>
  The collaborators outside the program: the process environment, the clock (seconds),
  the string encoding and signature of the token library, the password hasher
  (\<open>None\<close> when it throws), and the errors that the store driver throws for reasons of
  its own, each given by its \<open>code\<close> property: \<open>pool_fault\<close> when no connection can be
  had, \<open>db_fault\<close> when the statement fails.
\<close>

record env =
  env_JWT_SECRET :: "js_string option"
  clock :: nat
  jwt_encode :: "js_string \<Rightarrow> claims \<Rightarrow> js_string"
  jwt_decode :: "js_string \<Rightarrow> js_string \<Rightarrow> claims option"
  bcrypt_hash :: "jsval \<Rightarrow> nat \<Rightarrow> js_string option"
  bcrypt_compare :: "jsval \<Rightarrow> js_string \<Rightarrow> bool option"
  pool_fault :: "jsval option"
  db_fault :: "jsval option"

text \<open>\<open>process.env.JWT_SECRET || 'a_default_fallback_secret'\<close>\<close>

definition JWT_SECRET :: "env \<Rightarrow> js_string" where
  "JWT_SECRET e =
     (case env_JWT_SECRET e of
        None \<Rightarrow> ascii ''a_default_fallback_secret''
      | Some s \<Rightarrow> if s = [] then ascii ''a_default_fallback_secret'' else s)"

section \<open>The token service\<close>

text \<open>
  The token library (\<open>jsonwebtoken\<close>) is not part of the sources. Its encoding of claims
  into a string and its signature are the parameters \<open>jwt_encode\<close> and \<open>jwt_decode\<close> of
  the environment; the rest is modelled from the spec.
\<close>

text \<open>
  Modelled from the spec: the two ways \<open>verify\<close> of the missing token library fails, on a
  signature that does not check and on a token that has expired.
\<close>

datatype jwt_error = JsonWebTokenError | TokenExpiredError

text \<open>
  Modelled from the spec: \<open>issue\<close> of the missing token library (\<open>jwt.sign\<close>). It signs
  the identity with the secret and sets the expiry the caller asks for, counted from the
  time of issue. The library puts the time of issue into the token as well (\<open>iat\<close>),
  which the spec does not list.
\<close>

definition jwt_sign :: "env \<Rightarrow> nat \<Rightarrow> jsval \<Rightarrow> jsval \<Rightarrow> js_string \<Rightarrow> nat \<Rightarrow> js_string" where
  "jwt_sign e uid email role secret expiresIn =
     jwt_encode e secret
       \<lparr>c_id = uid, c_email = email, c_role = role,
        c_iat = Some (clock e), c_exp = Some (clock e + expiresIn)\<rparr>"

text \<open>
  Modelled from the spec: \<open>verify\<close> of the missing token library. It fails on a token
  whose signature does not check and on one whose time of expiry has come, and else gives
  the claims.
\<close>

definition jwt_verify :: "env \<Rightarrow> js_string \<Rightarrow> js_string \<Rightarrow> jwt_error + claims" where
  "jwt_verify e token secret =
     (case jwt_decode e secret token of
        None \<Rightarrow> Inl JsonWebTokenError
      | Some c \<Rightarrow>
          (case c_exp c of
             None \<Rightarrow> Inr c
           | Some t \<Rightarrow> if clock e \<ge> t then Inl TokenExpiredError else Inr c))"

text \<open>\<open>expiresIn: '1h'\<close>, in seconds.\<close>

definition one_hour :: nat where
  "one_hour = 3600"

section \<open>The guards\<close>

text \<open>
  \<open>authHeader && authHeader.split(' ')[1]\<close>: \<open>undefined\<close> when the header is missing, the
  header itself when it is the empty string, the second field otherwise, \<open>undefined\<close>
  when there is none.
\<close>

definition bearer_token :: "js_string option \<Rightarrow> js_string option" where
  "bearer_token authHeader =
     (case authHeader of
        None \<Rightarrow> None
      | Some h \<Rightarrow> if h = [] then Some [] else index_opt (split_on space h) 1)"

text \<open>\<open>authenticateToken\<close>, the same function in both source files.\<close>

definition authenticateToken :: "env \<Rightarrow> request \<Rightarrow> outcome" where
  "authenticateToken e req =
     (let authHeader = authorization req;
          token = bearer_token authHeader
      in case token of
           None \<Rightarrow> Respond (SendStatus 401)
         | Some t \<Rightarrow>
             (case jwt_verify e t (JWT_SECRET e) of
                Inl err \<Rightarrow> Respond (SendStatus 403)
              | Inr u \<Rightarrow> Next (req\<lparr>user := Some u\<rparr>)))"

text \<open>\<open>authorizeAdmin\<close>, the same function in both source files.\<close>

definition authorizeAdmin :: "request \<Rightarrow> outcome" where
  "authorizeAdmin req =
     (case user req of
        None \<Rightarrow> Respond (SendStatus 403)
      | Some u \<Rightarrow>
          if c_role u = JStr (ascii ''admin'') then Next req
          else Respond (SendStatus 403))"

section \<open>Messages\<close>

text \<open>index.js:45, part_000:48 (28 code units).\<close>

definition msg_register_invalid :: js_string where
  "msg_register_invalid =
    [0x540D, 0x524D, 0x3001, 0x30E1, 0x30FC, 0x30EB, 0x30A2, 0x30C9, 0x30EC, 0x30B9,
     0x3001, 0x0038, 0x6587, 0x5B57, 0x4EE5, 0x4E0A, 0x306E, 0x30D1, 0x30B9, 0x30EF,
     0x30FC, 0x30C9, 0x306F, 0x5FC5, 0x9808, 0x3067, 0x3059, 0x3002]"

text \<open>index.js:57, part_000:63 (21 code units).\<close>

definition msg_email_in_use :: js_string where
  "msg_email_in_use =
    [0x305D, 0x306E, 0x30E1, 0x30FC, 0x30EB, 0x30A2, 0x30C9, 0x30EC, 0x30B9, 0x306F,
     0x65E2, 0x306B, 0x4F7F, 0x7528, 0x3055, 0x308C, 0x3066, 0x3044, 0x307E, 0x3059,
     0x3002]"

text \<open>the body of every 500 answer (15 code units).\<close>

definition msg_server_error :: js_string where
  "msg_server_error =
    [0x30B5, 0x30FC, 0x30D0, 0x30FC, 0x30A8, 0x30E9, 0x30FC, 0x304C, 0x767A, 0x751F,
     0x3057, 0x307E, 0x3057, 0x305F, 0x3002]"

text \<open>index.js:68, part_000:76 (20 code units).\<close>

definition msg_login_missing :: js_string where
  "msg_login_missing =
    [0x0065, 0x006D, 0x0061, 0x0069, 0x006C, 0x3068, 0x0070, 0x0061, 0x0073, 0x0073,
     0x0077, 0x006F, 0x0072, 0x0064, 0x306F, 0x5FC5, 0x9808, 0x3067, 0x3059, 0x3002]"

text \<open>index.js:73, part_000:84 (10 code units).\<close>

definition msg_login_no_user :: js_string where
  "msg_login_no_user =
    [0x8A8D, 0x8A3C, 0x306B, 0x5931, 0x6557, 0x3057, 0x307E, 0x3057, 0x305F, 0x3002]"

text \<open>index.js:82, part_000:95 (10 code units).\<close>

definition msg_login_no_match :: js_string where
  "msg_login_no_match =
    [0x8A8D, 0x8A3C, 0x306B, 0x5931, 0x6557, 0x3057, 0x307E, 0x3057, 0x305F, 0x3002]"

text \<open>index.js:80, part_000:93 (6 code units).\<close>

definition msg_login_ok :: js_string where
  "msg_login_ok =
    [0x30ED, 0x30B0, 0x30A4, 0x30F3, 0x6210, 0x529F]"

text \<open>index.js:97, part_000:112 (21 code units).\<close>

definition msg_password_invalid :: js_string where
  "msg_password_invalid =
    [0x30D1, 0x30B9, 0x30EF, 0x30FC, 0x30C9, 0x306F, 0x0038, 0x6587, 0x5B57, 0x4EE5,
     0x4E0A, 0x3067, 0x5165, 0x529B, 0x3057, 0x3066, 0x304F, 0x3060, 0x3055, 0x3044,
     0x3002]"

text \<open>index.js:103, part_000:121 (17 code units).\<close>

definition msg_password_updated :: js_string where
  "msg_password_updated =
    [0x30D1, 0x30B9, 0x30EF, 0x30FC, 0x30C9, 0x304C, 0x6B63, 0x5E38, 0x306B, 0x66F4,
     0x65B0, 0x3055, 0x308C, 0x307E, 0x3057, 0x305F, 0x3002]"

text \<open>index.js:129, part_000:163 and 182 (18 code units).\<close>

definition msg_user_not_found :: js_string where
  "msg_user_not_found =
    [0x6307, 0x5B9A, 0x3055, 0x308C, 0x305F, 0x30E6, 0x30FC, 0x30B6, 0x30FC, 0x306F,
     0x898B, 0x3064, 0x304B, 0x308A, 0x307E, 0x305B, 0x3093, 0x3002]"

text \<open>part_000:152 (23 code units).\<close>

definition msg_update_invalid :: js_string where
  "msg_update_invalid =
    [0x006E, 0x0061, 0x006D, 0x0065, 0x002C, 0x0020, 0x0065, 0x006D, 0x0061, 0x0069,
     0x006C, 0x002C, 0x0020, 0x0072, 0x006F, 0x006C, 0x0065, 0x306F, 0x5FC5, 0x9808,
     0x3067, 0x3059, 0x3002]"

section \<open>The credential store\<close>

text \<open>
  The module \<open>./db\<close> and the database behind it are not part of the sources. What the
  store answers to each SQL statement of the source is modelled from the spec.
\<close>

text \<open>
  Modelled from the spec: the user record that the missing store persists (id, name,
  email, password digest, role).
\<close>

record user_row =
  u_id :: nat
  u_name :: jsval
  u_email :: jsval
  u_password :: js_string
  u_role :: jsval

text \<open>
  Modelled from the spec: the state of the missing store: its records, the id it assigns
  next, and the role a new record gets by default.
\<close>

record store =
  rows :: "user_row list"
  next_id :: nat
  role_default :: jsval

text \<open>
  Modelled from the spec: the one error of the missing store that the handlers tell
  apart, a violated uniqueness of the email.
\<close>

datatype db_error = UniqueViolation

text \<open>
  Modelled from the spec: the invariant of the missing store: ids are unique and
  assigned by the store, emails are unique.
\<close>

definition store_inv :: "store \<Rightarrow> bool" where
  "store_inv db =
     (distinct (map u_id (rows db)) \<and> distinct (map u_email (rows db))
      \<and> list_all (\<lambda>u. u_id u < next_id db) (rows db))"

text \<open>
  Modelled from the spec: what the missing store does on
  \<open>INSERT INTO users (name, email, password) VALUES (..)\<close>. It refuses an email that a
  record has; else it adds a record under a new id, with the default role, and gives
  the id.
\<close>

definition insert_user ::
  "store \<Rightarrow> jsval \<Rightarrow> jsval \<Rightarrow> js_string \<Rightarrow> db_error + nat \<times> store" where
  "insert_user db name email digest =
     (if email \<in> set (map u_email (rows db)) then Inl UniqueViolation
      else Inr (next_id db,
                db\<lparr>rows := rows db @
                       [\<lparr>u_id = next_id db, u_name = name, u_email = email,
                         u_password = digest, u_role = role_default db\<rparr>],
                   next_id := Suc (next_id db)\<rparr>))"

text \<open>
  Modelled from the spec: what the missing store answers to
  \<open>SELECT * FROM users WHERE email = ..\<close>: the records with that email, compared as
  stored.
\<close>

definition select_by_email :: "store \<Rightarrow> jsval \<Rightarrow> user_row list" where
  "select_by_email db email = filter (\<lambda>u. u_email u = email) (rows db)"

text \<open>
  Modelled from the spec: what the missing store does on
  \<open>UPDATE users SET password = .. WHERE id = ..\<close>, giving the number of rows matched.
\<close>

definition update_password :: "store \<Rightarrow> js_string \<Rightarrow> nat \<Rightarrow> nat \<times> store" where
  "update_password db digest uid =
     (length (filter (\<lambda>u. u_id u = uid) (rows db)),
      db\<lparr>rows := map (\<lambda>u. if u_id u = uid then u\<lparr>u_password := digest\<rparr> else u)
                      (rows db)\<rparr>)"

text \<open>
  Modelled from the spec: what the missing store answers to
  \<open>SELECT id, name, email, role FROM users\<close>: those four columns of every record.
\<close>

definition public_of :: "user_row \<Rightarrow> public_row" where
  "public_of u = \<lparr>r_id = u_id u, r_name = u_name u, r_email = u_email u, r_role = u_role u\<rparr>"

definition select_public :: "store \<Rightarrow> public_row list" where
  "select_public db = map public_of (rows db)"

text \<open>
  Modelled from the spec: what the missing store does on
  \<open>UPDATE users SET name = .., email = .., role = .. WHERE id = ..\<close>, giving the number of
  rows matched; it refuses an email that another record has.
\<close>

definition update_user ::
  "store \<Rightarrow> jsval \<Rightarrow> jsval \<Rightarrow> jsval \<Rightarrow> nat \<Rightarrow> db_error + nat \<times> store" where
  "update_user db name email role uid =
     (if uid \<in> set (map u_id (rows db))
         \<and> email \<in> set (map u_email (filter (\<lambda>u. u_id u \<noteq> uid) (rows db)))
      then Inl UniqueViolation
      else Inr (length (filter (\<lambda>u. u_id u = uid) (rows db)),
                db\<lparr>rows := map (\<lambda>u. if u_id u = uid
                                     then u\<lparr>u_name := name, u_email := email, u_role := role\<rparr>
                                     else u) (rows db)\<rparr>))"

text \<open>
  Modelled from the spec: what the missing store does on
  \<open>DELETE FROM users WHERE id = ..\<close>, giving the number of rows deleted.
\<close>

definition delete_user :: "store \<Rightarrow> nat \<Rightarrow> nat \<times> store" where
  "delete_user db uid =
     (length (filter (\<lambda>u. u_id u = uid) (rows db)),
      db\<lparr>rows := filter (\<lambda>u. u_id u \<noteq> uid) (rows db)\<rparr>)"

section \<open>Routes\<close>

type_synonym handler = "env \<Rightarrow> store \<Rightarrow> request \<Rightarrow> response \<times> store"

type_synonym guard = "env \<Rightarrow> request \<Rightarrow> outcome"

text \<open>
  Modelled from the spec: the routing of the framework (\<open>express\<close>, not part of the
  sources) on \<open>app.METHOD(path, g1, .., gn, handler)\<close>. The guards run strictly in that
  order, each on the request the one before left; the first that answers ends the
  request, and the handler runs only when every guard has called \<open>next()\<close>.
\<close>

fun run_route :: "guard list \<Rightarrow> handler \<Rightarrow> handler" where
  "run_route [] h e db req = h e db req"
| "run_route (g # gs) h e db req =
     (case g e req of
        Respond r \<Rightarrow> (r, db)
      | Next req' \<Rightarrow> run_route gs h e db req')"

datatype route =
    POST_users
  | POST_login
  | PUT_users_me_password
  | GET_users
  | PUT_users_id
  | DELETE_users_id

section \<open>The handlers of index.js (PostgreSQL)\<close>

text \<open>
  Modelled from the spec: \<open>await pool.query(..)\<close> of the missing module \<open>./db\<close>. It throws
  when no connection can be had or the statement fails; a violated unique constraint is
  thrown with the code 23505, which the source names as the duplicate code of
  PostgreSQL. The argument is what the store answers to the statement.
\<close>

definition pg_pool_query :: "env \<Rightarrow> db_error + 'a \<Rightarrow> jsval + 'a" where
  "pg_pool_query e r =
     (case pool_fault e of
        Some c \<Rightarrow> Inl c
      | None \<Rightarrow>
          (case db_fault e of
             Some c \<Rightarrow> Inl c
           | None \<Rightarrow>
               (case r of
                  Inl UniqueViolation \<Rightarrow> Inl (JStr (ascii ''23505''))
                | Inr x \<Rightarrow> Inr x)))"

text \<open>The \<open>catch\<close> block of \<open>POST /users\<close>, on the \<open>code\<close> of the error caught.\<close>

definition pg_post_users_catch :: "jsval \<Rightarrow> response" where
  "pg_post_users_catch code =
     (if code = JStr (ascii ''23505'') then Json 409 (ErrorBody msg_email_in_use)
      else Json 500 (ErrorBody msg_server_error))"

definition pg_post_users :: handler where
  "pg_post_users e db req =
     (let name = body_name req; email = body_email req; password = body_password req
      in if \<not> truthy name \<or> \<not> truthy email \<or> \<not> truthy password \<or> length_lt password 8
         then (Json 400 (ErrorBody msg_register_invalid), db)
         else
           (let saltRounds = 10
            in case bcrypt_hash e password saltRounds of
                 None \<Rightarrow> (pg_post_users_catch JUndefined, db)
               | Some hashedPassword \<Rightarrow>
                   (case pg_pool_query e (insert_user db name email hashedPassword) of
                      Inl code \<Rightarrow> (pg_post_users_catch code, db)
                    | Inr (new_id, db') \<Rightarrow>
                        (Json 201 (CreatedBody new_id name email), db'))))"

definition pg_post_login :: handler where
  "pg_post_login e db req =
     (let email = body_email req; password = body_password req
      in if \<not> truthy email \<or> \<not> truthy password
         then (Json 400 (ErrorBody msg_login_missing), db)
         else
           (case pg_pool_query e (Inr (select_by_email db email)) of
              Inl code \<Rightarrow> (Json 500 (ErrorBody msg_server_error), db)
            | Inr result_rows \<Rightarrow>
                (case result_rows of
                   [] \<Rightarrow> (Json 401 (ErrorBody msg_login_no_user), db)
                 | u # others \<Rightarrow>
                     (case bcrypt_compare e password (u_password u) of
                        None \<Rightarrow> (Json 500 (ErrorBody msg_server_error), db)
                      | Some isMatch \<Rightarrow>
                          if isMatch
                          then (Json 200
                                  (LoginBody msg_login_ok
                                     (jwt_sign e (u_id u) (u_email u) (u_role u)
                                        (JWT_SECRET e) one_hour)), db)
                          else (Json 401 (ErrorBody msg_login_no_match), db)))))"

definition pg_put_password :: handler where
  "pg_put_password e db req =
     (case user req of
        None \<Rightarrow> (Unanswered, db)
      | Some u \<Rightarrow>
          (let userId = c_id u; newPassword = body_newPassword req
           in if \<not> truthy newPassword \<or> length_lt newPassword 8
              then (Json 400 (ErrorBody msg_password_invalid), db)
              else
                (let saltRounds = 10
                 in case bcrypt_hash e newPassword saltRounds of
                      None \<Rightarrow> (Json 500 (ErrorBody msg_server_error), db)
                    | Some hashedPassword \<Rightarrow>
                        (case pg_pool_query e
                                (Inr (update_password db hashedPassword userId)) of
                           Inl code \<Rightarrow> (Json 500 (ErrorBody msg_server_error), db)
                         | Inr (n, db') \<Rightarrow>
                             (Json 200 (MessageBody msg_password_updated), db')))))"

definition pg_get_users :: handler where
  "pg_get_users e db req =
     (case pg_pool_query e (Inr (select_public db)) of
        Inl code \<Rightarrow> (Json 500 (ErrorBody msg_server_error), db)
      | Inr result_rows \<Rightarrow> (Json 200 (RowsBody result_rows), db))"

definition pg_delete_user :: handler where
  "pg_delete_user e db req =
     (let uid = params_id req
      in case pg_pool_query e (Inr (delete_user db uid)) of
           Inl code \<Rightarrow> (Json 500 (ErrorBody msg_server_error), db)
         | Inr (rowCount, db') \<Rightarrow>
             if rowCount = 0 then (Json 404 (ErrorBody msg_user_not_found), db')
             else (Send 204, db'))"

text \<open>The routes index.js registers; it has no \<open>PUT /users/:id\<close>.\<close>

fun pg_app :: "route \<Rightarrow> handler option" where
  "pg_app POST_users = Some (run_route [] pg_post_users)"
| "pg_app POST_login = Some (run_route [] pg_post_login)"
| "pg_app PUT_users_me_password = Some (run_route [authenticateToken] pg_put_password)"
| "pg_app GET_users =
     Some (run_route [authenticateToken, \<lambda>e. authorizeAdmin] pg_get_users)"
| "pg_app PUT_users_id = None"
| "pg_app DELETE_users_id =
     Some (run_route [authenticateToken, \<lambda>e. authorizeAdmin] pg_delete_user)"

section \<open>The handlers of the second source file (MySQL)\<close>

text \<open>
  Every handler of this file takes a connection from the pool and releases it in
  \<open>finally\<close>, which nothing here observes.
\<close>

text \<open>
  Modelled from the spec: \<open>await pool.getConnection()\<close> of the missing module \<open>./db\<close>. It
  throws when no connection can be had.
\<close>

definition my_getConnection :: "env \<Rightarrow> jsval + unit" where
  "my_getConnection e =
     (case pool_fault e of
        Some c \<Rightarrow> Inl c
      | None \<Rightarrow> Inr ())"

text \<open>
  Modelled from the spec: \<open>await conn.query(..)\<close> on a connection of the missing module
  \<open>./db\<close>. It throws when the statement fails, a violated unique constraint with the
  code \<open>ER_DUP_ENTRY\<close> that the source tests for. The argument is what the store answers
  to the statement.
\<close>

definition my_conn_query :: "env \<Rightarrow> db_error + 'a \<Rightarrow> jsval + 'a" where
  "my_conn_query e r =
     (case db_fault e of
        Some c \<Rightarrow> Inl c
      | None \<Rightarrow>
          (case r of
             Inl UniqueViolation \<Rightarrow> Inl (JStr (ascii ''ER_DUP_ENTRY''))
           | Inr x \<Rightarrow> Inr x))"

definition my_post_users_catch :: "jsval \<Rightarrow> response" where
  "my_post_users_catch code =
     (if code = JStr (ascii ''ER_DUP_ENTRY'') then Json 409 (ErrorBody msg_email_in_use)
      else Json 500 (ErrorBody msg_server_error))"

definition my_post_users :: handler where
  "my_post_users e db req =
     (let name = body_name req; email = body_email req; password = body_password req
      in if \<not> truthy name \<or> \<not> truthy email \<or> \<not> truthy password \<or> length_lt password 8
         then (Json 400 (ErrorBody msg_register_invalid), db)
         else
           (let saltRounds = 10
            in case my_getConnection e of
                 Inl code \<Rightarrow> (my_post_users_catch code, db)
               | Inr conn \<Rightarrow>
                   (case bcrypt_hash e password saltRounds of
                      None \<Rightarrow> (my_post_users_catch JUndefined, db)
                    | Some hashedPassword \<Rightarrow>
                        (case my_conn_query e (insert_user db name email hashedPassword) of
                           Inl code \<Rightarrow> (my_post_users_catch code, db)
                         | Inr (insertId, db') \<Rightarrow>
                             (Json 201 (CreatedBody insertId name email), db')))))"

definition my_post_login :: handler where
  "my_post_login e db req =
     (let email = body_email req; password = body_password req
      in if \<not> truthy email \<or> \<not> truthy password
         then (Json 400 (ErrorBody msg_login_missing), db)
         else
           (case my_getConnection e of
              Inl code \<Rightarrow> (Json 500 (ErrorBody msg_server_error), db)
            | Inr conn \<Rightarrow>
                (case my_conn_query e (Inr (select_by_email db email)) of
                   Inl code \<Rightarrow> (Json 500 (ErrorBody msg_server_error), db)
                 | Inr users \<Rightarrow>
                     (case users of
                        [] \<Rightarrow> (Json 401 (ErrorBody msg_login_no_user), db)
                      | u # others \<Rightarrow>
                          (case bcrypt_compare e password (u_password u) of
                             None \<Rightarrow> (Json 500 (ErrorBody msg_server_error), db)
                           | Some isMatch \<Rightarrow>
                               if isMatch
                               then (Json 200
                                       (LoginBody msg_login_ok
                                          (jwt_sign e (u_id u) (u_email u) (u_role u)
                                             (JWT_SECRET e) one_hour)), db)
                               else (Json 401 (ErrorBody msg_login_no_match), db))))))"

definition my_put_password :: handler where
  "my_put_password e db req =
     (case user req of
        None \<Rightarrow> (Unanswered, db)
      | Some u \<Rightarrow>
          (let userId = c_id u; newPassword = body_newPassword req
           in if \<not> truthy newPassword \<or> length_lt newPassword 8
              then (Json 400 (ErrorBody msg_password_invalid), db)
              else
                (let saltRounds = 10
                 in case my_getConnection e of
                      Inl code \<Rightarrow> (Json 500 (ErrorBody msg_server_error), db)
                    | Inr conn \<Rightarrow>
                        (case bcrypt_hash e newPassword saltRounds of
                           None \<Rightarrow> (Json 500 (ErrorBody msg_server_error), db)
                         | Some hashedPassword \<Rightarrow>
                             (case my_conn_query e
                                     (Inr (update_password db hashedPassword userId)) of
                                Inl code \<Rightarrow> (Json 500 (ErrorBody msg_server_error), db)
                              | Inr (n, db') \<Rightarrow>
                                  (Json 200 (MessageBody msg_password_updated), db'))))))"

definition my_get_users :: handler where
  "my_get_users e db req =
     (case my_getConnection e of
        Inl code \<Rightarrow> (Json 500 (ErrorBody msg_server_error), db)
      | Inr conn \<Rightarrow>
          (case my_conn_query e (Inr (select_public db)) of
             Inl code \<Rightarrow> (Json 500 (ErrorBody msg_server_error), db)
           | Inr result_rows \<Rightarrow> (Json 200 (RowsBody result_rows), db)))"

definition my_put_user :: handler where
  "my_put_user e db req =
     (let uid = params_id req;
          name = body_name req; email = body_email req; role = body_role req
      in if \<not> truthy name \<or> \<not> truthy email \<or> \<not> truthy role
         then (Json 400 (ErrorBody msg_update_invalid), db)
         else
           (case my_getConnection e of
              Inl code \<Rightarrow> (Json 500 (ErrorBody msg_server_error), db)
            | Inr conn \<Rightarrow>
                (case my_conn_query e (update_user db name email role uid) of
                   Inl code \<Rightarrow> (Json 500 (ErrorBody msg_server_error), db)
                 | Inr (affectedRows, db') \<Rightarrow>
                     if affectedRows = 0
                     then (Json 404 (ErrorBody msg_user_not_found), db')
                     else (Json 200 (UpdatedBody uid name email role), db'))))"

definition my_delete_user :: handler where
  "my_delete_user e db req =
     (let uid = params_id req
      in case my_getConnection e of
           Inl code \<Rightarrow> (Json 500 (ErrorBody msg_server_error), db)
         | Inr conn \<Rightarrow>
             (case my_conn_query e (Inr (delete_user db uid)) of
                Inl code \<Rightarrow> (Json 500 (ErrorBody msg_server_error), db)
              | Inr (affectedRows, db') \<Rightarrow>
                  if affectedRows = 0
                  then (Json 404 (ErrorBody msg_user_not_found), db')
                  else (Send 204, db')))"

fun my_app :: "route \<Rightarrow> handler option" where
  "my_app POST_users = Some (run_route [] my_post_users)"
| "my_app POST_login = Some (run_route [] my_post_login)"
| "my_app PUT_users_me_password = Some (run_route [authenticateToken] my_put_password)"
| "my_app GET_users =
     Some (run_route [authenticateToken, \<lambda>e. authorizeAdmin] my_get_users)"
| "my_app PUT_users_id =
     Some (run_route [authenticateToken, \<lambda>e. authorizeAdmin] my_put_user)"
| "my_app DELETE_users_id =
     Some (run_route [authenticateToken, \<lambda>e. authorizeAdmin] my_delete_user)"

section \<open>Example values\<close>

text \<open>The identity of a token issued at second 1000 to the administrator below.\<close>

definition ex_claims :: claims where
  "ex_claims =
     \<lparr>c_id = 1, c_email = JStr (ascii ''ann@example.com''), c_role = JStr (ascii ''admin''),
      c_iat = Some 1000, c_exp = Some 4600\<rparr>"

definition ex_token :: js_string where
  "ex_token = ascii ''header.payload.signature''"

text \<open>The identity of a token issued at the same second to the plain user below.\<close>

definition ex_bob_claims :: claims where
  "ex_bob_claims =
     \<lparr>c_id = 2, c_email = JStr (ascii ''bob@example.com''), c_role = JStr (ascii ''user''),
      c_iat = Some 1000, c_exp = Some 4600\<rparr>"

definition ex_bob_token :: js_string where
  "ex_bob_token = ascii ''header.payload2.signature2''"

text \<open>
  An environment at second 1000 with no secret configured, a token service that knows
  these two tokens, a hasher that prefixes a marker to a string and throws on anything
  else, and a store that is reachable.
\<close>

definition ex_env :: env where
  "ex_env =
     \<lparr>env_JWT_SECRET = None, clock = 1000,
      jwt_encode =
        (\<lambda>secret c. if c = ex_claims then ex_token
                     else if c = ex_bob_claims then ex_bob_token
                     else ascii ''unknown''),
      jwt_decode =
        (\<lambda>secret t. if t = ex_token then Some ex_claims
                     else if t = ex_bob_token then Some ex_bob_claims
                     else None),
      bcrypt_hash = (\<lambda>v rounds. case v of JStr s \<Rightarrow> Some (ascii ''$2b$'' @ s) | _ \<Rightarrow> None),
      bcrypt_compare =
        (\<lambda>v digest. case v of JStr s \<Rightarrow> Some (digest = ascii ''$2b$'' @ s) | _ \<Rightarrow> None),
      pool_fault = None, db_fault = None\<rparr>"

text \<open>A request with no header, an empty body and nobody attached.\<close>

definition ex_request :: request where
  "ex_request =
     \<lparr>authorization = None, body_name = JUndefined, body_email = JUndefined,
      body_password = JUndefined, body_newPassword = JUndefined, body_role = JUndefined,
      params_id = 0, user = None\<rparr>"

definition ex_ann :: user_row where
  "ex_ann =
     \<lparr>u_id = 1, u_name = JStr (ascii ''Ann''), u_email = JStr (ascii ''ann@example.com''),
      u_password = ascii ''$2b$correct horse'', u_role = JStr (ascii ''admin'')\<rparr>"

definition ex_bob :: user_row where
  "ex_bob =
     \<lparr>u_id = 2, u_name = JStr (ascii ''Bob''), u_email = JStr (ascii ''bob@example.com''),
      u_password = ascii ''$2b$battery staple'', u_role = JStr (ascii ''user'')\<rparr>"

definition ex_store :: store where
  "ex_store = \<lparr>rows = [ex_ann, ex_bob], next_id = 3, role_default = JStr (ascii ''user'')\<rparr>"

text \<open>The same request carrying each example token under the \<open>Bearer\<close> scheme.\<close>

definition ex_bearer_request :: request where
  "ex_bearer_request =
     ex_request\<lparr>authorization := Some (ascii ''Bearer'' @ space # ex_token)\<rparr>"

definition ex_bob_request :: request where
  "ex_bob_request =
     ex_request\<lparr>authorization := Some (ascii ''Bearer'' @ space # ex_bob_token)\<rparr>"

text \<open>A registration with a password of seven code units, and one that is in order.\<close>

definition ex_short_password :: request where
  "ex_short_password =
     ex_request\<lparr>body_name := JStr (ascii ''Carol''),
                body_email := JStr (ascii ''carol@example.com''),
                body_password := JStr (ascii ''1234567'')\<rparr>"

definition ex_register :: request where
  "ex_register =
     ex_request\<lparr>body_name := JStr (ascii ''Carol''),
                body_email := JStr (ascii ''carol@example.com''),
                body_password := JStr (ascii ''long enough'')\<rparr>"

text \<open>The example store after that registration.\<close>

definition ex_carol :: user_row where
  "ex_carol =
     \<lparr>u_id = 3, u_name = JStr (ascii ''Carol''), u_email = JStr (ascii ''carol@example.com''),
      u_password = ascii ''$2b$long enough'', u_role = JStr (ascii ''user'')\<rparr>"

definition ex_store_carol :: store where
  "ex_store_carol =
     \<lparr>rows = [ex_ann, ex_bob, ex_carol], next_id = 4, role_default = JStr (ascii ''user'')\<rparr>"


definition ex_login_wrong :: request where
  "ex_login_wrong =
     ex_request\<lparr>body_email := JStr (ascii ''ann@example.com''),
                body_password := JStr (ascii ''wrong horse'')\<rparr>"


text \<open>The administrator deleting the user with id 2, and one with an id nobody has.\<close>

definition ex_delete_bob :: request where
  "ex_delete_bob = ex_bearer_request\<lparr>params_id := 2\<rparr>"

definition ex_delete_nobody :: request where
  "ex_delete_nobody = ex_bearer_request\<lparr>params_id := 7\<rparr>"

text \<open>The example store with other digests.\<close>

definition ex_store_other :: store where
  "ex_store_other =
     \<lparr>rows = [ex_ann\<lparr>u_password := ascii ''$2b$tr0ub4dor''\<rparr>,
              ex_bob\<lparr>u_password := ascii ''$2b$hunter2''\<rparr>],
      next_id = 3, role_default = JStr (ascii ''user'')\<rparr>"

section \<open>Properties of the guards\<close>

lemma split_on_first:
  "sep \<notin> set xs \<Longrightarrow> split_on sep (xs @ sep # ys) = xs # split_on sep ys"
  by (induction xs) auto

lemma split_on_no_sep: "sep \<notin> set xs \<Longrightarrow> split_on sep xs = [xs]"
  by (induction xs) auto

lemma ascii_Bearer_no_space: "space \<notin> set (ascii ''Bearer'')"
  by (simp add: ascii_def space_def)

lemma bearer_token_Bearer:
  "space \<notin> set t \<Longrightarrow> bearer_token (Some (ascii ''Bearer'' @ space # t)) = Some t"
  by (simp add: bearer_token_def split_on_first [OF ascii_Bearer_no_space] split_on_no_sep)

lemma ex_token_no_space: "space \<notin> set ex_token"
  by (simp add: ex_token_def ascii_def space_def)

lemma ex_bob_token_no_space: "space \<notin> set ex_bob_token"
  by (simp add: ex_bob_token_def ascii_def space_def)

lemma ex_tokens_differ: "ex_bob_token \<noteq> ex_token"
  by (simp add: ex_bob_token_def ex_token_def ascii_def)

lemma ex_authenticated:
  "authenticateToken ex_env ex_bearer_request
     = Next (ex_bearer_request\<lparr>user := Some ex_claims\<rparr>)"
  by (simp add: authenticateToken_def jwt_verify_def bearer_token_Bearer ex_token_no_space
        ex_bearer_request_def ex_env_def ex_claims_def)

lemma ex_bob_authenticated:
  "authenticateToken ex_env ex_bob_request
     = Next (ex_bob_request\<lparr>user := Some ex_bob_claims\<rparr>)"
  by (simp add: authenticateToken_def jwt_verify_def bearer_token_Bearer
        ex_bob_token_no_space ex_tokens_differ ex_bob_request_def ex_env_def
        ex_bob_claims_def)

lemma authenticateToken_Next:
  assumes "authenticateToken e req = Next req'"
  shows "\<exists>u. req' = req\<lparr>user := Some u\<rparr>"
  using assms
  by (auto simp: authenticateToken_def split: option.splits sum.splits)

lemma bearer_token_second:
  assumes "space \<notin> set w" and "space \<notin> set t"
  shows "bearer_token (Some (w @ space # t)) = Some t"
    and "bearer_token (Some (w @ space # t @ space # rest)) = Some t"
  using assms by (simp_all add: bearer_token_def split_on_first split_on_no_sep)

lemma bearer_token_one_word:
  "space \<notin> set (k # ks) \<Longrightarrow> bearer_token (Some (k # ks)) = None"
  using split_on_no_sep [of space "k # ks"] by (simp add: bearer_token_def)

text \<open>
  Claim C1, as amended. \<open>authenticateToken\<close> takes as token the second field of the
  \<open>authorization\<close> header split at single spaces, whatever the first field and whatever
  follows the second; under the scheme \<open>Bearer <token>\<close> that is the token. When the
  header is missing or is one word, it answers 401 with the body \<open>Unauthorized\<close>. When
  the signature of the token does not check or the token has expired, it answers 403
  with the body \<open>Forbidden\<close>. Else it attaches the decoded claims to the request and
  calls \<open>next()\<close>.
\<close>

theorem authenticateToken_cases:
  "(authorization req = None \<longrightarrow> bearer_token (authorization req) = None)
   \<and> (authorization req = Some (k # ks) \<and> space \<notin> set (k # ks)
        \<longrightarrow> bearer_token (authorization req) = None)
   \<and> (authorization req = Some (w @ space # t) \<and> space \<notin> set w \<and> space \<notin> set t
        \<longrightarrow> bearer_token (authorization req) = Some t)
   \<and> (authorization req = Some (w @ space # t @ space # rest)
        \<and> space \<notin> set w \<and> space \<notin> set t
        \<longrightarrow> bearer_token (authorization req) = Some t)
   \<and> (bearer_token (authorization req) = None
        \<longrightarrow> authenticateToken e req = Respond (SendStatus 401))
   \<and> (bearer_token (authorization req) = Some t
        \<longrightarrow> (jwt_decode e (JWT_SECRET e) t = None
               \<longrightarrow> authenticateToken e req = Respond (SendStatus 403))
          \<and> (jwt_decode e (JWT_SECRET e) t = Some c
               \<longrightarrow> ((\<exists>x. c_exp c = Some x \<and> x \<le> clock e)
                      \<longrightarrow> authenticateToken e req = Respond (SendStatus 403))
                 \<and> (\<not> (\<exists>x. c_exp c = Some x \<and> x \<le> clock e)
                      \<longrightarrow> authenticateToken e req = Next (req\<lparr>user := Some c\<rparr>))))
   \<and> status_of (SendStatus 401) = Some 401
   \<and> body_of (SendStatus 401) = Some (TextBody (ascii ''Unauthorized''))
   \<and> status_of (SendStatus 403) = Some 403
   \<and> body_of (SendStatus 403) = Some (TextBody (ascii ''Forbidden''))"
proof -
  have none: "bearer_token None = None"
    by (simp add: bearer_token_def)
  have decide:
    "(bearer_token (authorization req) = None
        \<longrightarrow> authenticateToken e req = Respond (SendStatus 401))
     \<and> (bearer_token (authorization req) = Some t
        \<longrightarrow> (jwt_decode e (JWT_SECRET e) t = None
               \<longrightarrow> authenticateToken e req = Respond (SendStatus 403))
          \<and> (jwt_decode e (JWT_SECRET e) t = Some c
               \<longrightarrow> ((\<exists>x. c_exp c = Some x \<and> x \<le> clock e)
                      \<longrightarrow> authenticateToken e req = Respond (SendStatus 403))
                 \<and> (\<not> (\<exists>x. c_exp c = Some x \<and> x \<le> clock e)
                      \<longrightarrow> authenticateToken e req = Next (req\<lparr>user := Some c\<rparr>))))"
    by (auto simp: authenticateToken_def jwt_verify_def split: option.splits)
  have fields:
    "authorization req = None \<longrightarrow> bearer_token (authorization req) = None"
    "authorization req = Some (k # ks) \<and> space \<notin> set (k # ks)
        \<longrightarrow> bearer_token (authorization req) = None"
    "authorization req = Some (w @ space # t) \<and> space \<notin> set w \<and> space \<notin> set t
        \<longrightarrow> bearer_token (authorization req) = Some t"
    "authorization req = Some (w @ space # t @ space # rest)
        \<and> space \<notin> set w \<and> space \<notin> set t
        \<longrightarrow> bearer_token (authorization req) = Some t"
    using bearer_token_second(1) [of w t] bearer_token_second(2) [of w t rest]
      bearer_token_one_word [of k ks] none
    by auto
  have bodies: "status_of (SendStatus 401) = Some 401"
    "body_of (SendStatus 401) = Some (TextBody (ascii ''Unauthorized''))"
    "status_of (SendStatus 403) = Some 403"
    "body_of (SendStatus 403) = Some (TextBody (ascii ''Forbidden''))"
    by simp_all
  show ?thesis
    using decide fields bodies by blast
qed

theorem authenticateToken_cases_witness:
  "authenticateToken ex_env ex_request = Respond (SendStatus 401)
   \<and> authenticateToken ex_env (ex_request\<lparr>authorization := Some (ascii ''Bearer'')\<rparr>)
       = Respond (SendStatus 401)
   \<and> authenticateToken ex_env ex_bearer_request
       = Next (ex_bearer_request\<lparr>user := Some ex_claims\<rparr>)
   \<and> authenticateToken ex_env
         (ex_request\<lparr>authorization := Some (ascii ''Token'' @ space # ex_token
                                               @ space # ascii ''Bearer'')\<rparr>)
       = Next (ex_request\<lparr>authorization := Some (ascii ''Token'' @ space # ex_token
                                                   @ space # ascii ''Bearer''),
                          user := Some ex_claims\<rparr>)
   \<and> authenticateToken (ex_env\<lparr>clock := 4660\<rparr>) ex_bearer_request = Respond (SendStatus 403)
   \<and> authenticateToken ex_env
         (ex_request\<lparr>authorization := Some (ascii ''Bearer'' @ space # ascii ''forged'')\<rparr>)
       = Respond (SendStatus 403)
   \<and> body_of (SendStatus 401) = Some (TextBody (ascii ''Unauthorized''))
   \<and> body_of (SendStatus 403) = Some (TextBody (ascii ''Forbidden''))"
proof -
  have words: "ascii ''Bearer'' = of_char CHR ''B'' # ascii ''earer''"
    "space \<notin> set (of_char CHR ''B'' # ascii ''earer'')"
    "space \<notin> set (ascii ''Token'')" "space \<notin> set (ascii ''forged'')"
    by (simp_all add: ascii_def space_def)
  have forged_not_token: "ascii ''forged'' \<noteq> ex_token" "ascii ''forged'' \<noteq> ex_bob_token"
    by (simp_all add: ascii_def ex_token_def ex_bob_token_def)
  show ?thesis
    using authenticateToken_cases [where req = ex_request and e = ex_env]
      authenticateToken_cases
        [where req = "ex_request\<lparr>authorization := Some (ascii ''Bearer'')\<rparr>"
           and k = "of_char CHR ''B''" and ks = "ascii ''earer''" and e = ex_env]
      authenticateToken_cases
        [where req = ex_bearer_request and w = "ascii ''Bearer''" and t = ex_token
           and e = ex_env and c = ex_claims]
      authenticateToken_cases
        [where req = "ex_request\<lparr>authorization := Some (ascii ''Token'' @ space # ex_token
                                                         @ space # ascii ''Bearer'')\<rparr>"
           and w = "ascii ''Token''" and t = ex_token and rest = "ascii ''Bearer''"
           and e = ex_env and c = ex_claims]
      authenticateToken_cases
        [where req = ex_bearer_request and w = "ascii ''Bearer''" and t = ex_token
           and e = "ex_env\<lparr>clock := 4660\<rparr>" and c = ex_claims]
      authenticateToken_cases
        [where req = "ex_request\<lparr>authorization :=
                                   Some (ascii ''Bearer'' @ space # ascii ''forged'')\<rparr>"
           and w = "ascii ''Bearer''" and t = "ascii ''forged''" and e = ex_env]
      words forged_not_token ex_token_no_space ascii_Bearer_no_space
    by (simp add: ex_request_def ex_bearer_request_def ex_env_def ex_claims_def)
qed

text \<open>
  Claim C1 as it is written fails on a request without an \<open>authorization\<close> header: the
  answer is 401, and it has a body, the text \<open>Unauthorized\<close> that \<open>res.sendStatus\<close> sends.
\<close>

theorem authenticateToken_body_counterexample:
  "authenticateToken ex_env ex_request = Respond (SendStatus 401)
   \<and> body_of (SendStatus 401) = Some (TextBody (ascii ''Unauthorized''))
   \<and> body_of (SendStatus 401) \<noteq> None"
  by (simp add: authenticateToken_def bearer_token_def ex_request_def)

text \<open>
  Claim C2. The admin-only routes (list users and delete user in both source files,
  update user in the second) run \<open>authenticateToken\<close>, then \<open>authorizeAdmin\<close>, then their
  handler. On a request that \<open>authenticateToken\<close> lets pass, with the identity it
  attached: when the role is not the string \<open>admin\<close> the route answers 403 through
  \<open>res.sendStatus\<close> and leaves the store as it was, whatever the handler is; when the
  role is \<open>admin\<close> the route does what the handler does on the request with the identity
  attached.
\<close>

theorem admin_routes_authorize:
  assumes "authenticateToken e req = Next req'" and "user req' = Some u"
  shows "pg_app GET_users
           = Some (run_route [authenticateToken, \<lambda>e. authorizeAdmin] pg_get_users)
     \<and> pg_app DELETE_users_id
           = Some (run_route [authenticateToken, \<lambda>e. authorizeAdmin] pg_delete_user)
     \<and> my_app GET_users
           = Some (run_route [authenticateToken, \<lambda>e. authorizeAdmin] my_get_users)
     \<and> my_app PUT_users_id
           = Some (run_route [authenticateToken, \<lambda>e. authorizeAdmin] my_put_user)
     \<and> my_app DELETE_users_id
           = Some (run_route [authenticateToken, \<lambda>e. authorizeAdmin] my_delete_user)
     \<and> (c_role u \<noteq> JStr (ascii ''admin'')
          \<longrightarrow> run_route [authenticateToken, \<lambda>e. authorizeAdmin] h e db req
                = (SendStatus 403, db))
     \<and> (c_role u = JStr (ascii ''admin'')
          \<longrightarrow> run_route [authenticateToken, \<lambda>e. authorizeAdmin] h e db req
                = h e db req')"
  using assms by (simp add: authorizeAdmin_def)

theorem admin_routes_authorize_witness:
  "authenticateToken ex_env ex_bearer_request
     = Next (ex_bearer_request\<lparr>user := Some ex_claims\<rparr>)
   \<and> c_role ex_claims = JStr (ascii ''admin'')
   \<and> run_route [authenticateToken, \<lambda>e. authorizeAdmin] pg_get_users
         ex_env ex_store ex_bearer_request
       = pg_get_users ex_env ex_store (ex_bearer_request\<lparr>user := Some ex_claims\<rparr>)
   \<and> authenticateToken ex_env ex_bob_request
       = Next (ex_bob_request\<lparr>user := Some ex_bob_claims\<rparr>)
   \<and> c_role ex_bob_claims \<noteq> JStr (ascii ''admin'')
   \<and> run_route [authenticateToken, \<lambda>e. authorizeAdmin] pg_get_users
         ex_env ex_store ex_bob_request
       = (SendStatus 403, ex_store)"
  using ex_authenticated ex_bob_authenticated
    admin_routes_authorize [OF ex_authenticated, of ex_claims pg_get_users ex_store]
    admin_routes_authorize [OF ex_bob_authenticated, of ex_bob_claims pg_get_users ex_store]
  by (simp add: ex_claims_def ex_bob_claims_def ascii_def)

text \<open>
  Claim C10. \<open>authorizeAdmin\<close> is total: on every request it either calls \<open>next()\<close> with
  the request unchanged or answers 403 through \<open>res.sendStatus\<close>. On a request with no
  identity attached it answers 403, so a route guarded by it answers 403 there and its
  handler, whatever it is, does not run.
\<close>

theorem authorizeAdmin_total:
  "(authorizeAdmin req = Next req \<or> authorizeAdmin req = Respond (SendStatus 403))
   \<and> (user req = None
        \<longrightarrow> authorizeAdmin req = Respond (SendStatus 403)
          \<and> run_route [\<lambda>e. authorizeAdmin] h e db req = (SendStatus 403, db))"
  by (simp add: authorizeAdmin_def split: option.split)

theorem authorizeAdmin_total_witness:
  "user ex_request = None
   \<and> authorizeAdmin ex_request = Respond (SendStatus 403)
   \<and> run_route [\<lambda>e. authorizeAdmin] pg_delete_user ex_env ex_store ex_request
       = (SendStatus 403, ex_store)"
  using authorizeAdmin_total [of ex_request pg_delete_user ex_env ex_store]
  by (simp add: ex_request_def)

section \<open>Registration\<close>

text \<open>
  Claim C3. A registration whose name, email or password is missing, or whose password
  has a length below 8, is answered 400 by the register route of either source file, and
  the store is left as it was.
\<close>

theorem register_invalid_input:
  assumes "body_name req = JUndefined \<or> body_email req = JUndefined
           \<or> body_password req = JUndefined
           \<or> (\<exists>k. js_length (body_password req) = Some k \<and> k < 8)"
    and "pg_app POST_users = Some f \<or> my_app POST_users = Some f"
  shows "f e db req = (Json 400 (ErrorBody msg_register_invalid), db)
         \<and> status_of (fst (f e db req)) = Some 400 \<and> snd (f e db req) = db"
proof -
  have bad: "\<not> truthy (body_name req) \<or> \<not> truthy (body_email req)
             \<or> \<not> truthy (body_password req) \<or> length_lt (body_password req) 8"
    using assms(1) by (auto simp: length_lt_def)
  have "pg_post_users e db req = (Json 400 (ErrorBody msg_register_invalid), db)"
    using bad by (auto simp: pg_post_users_def)
  moreover have "my_post_users e db req = (Json 400 (ErrorBody msg_register_invalid), db)"
    using bad by (auto simp: my_post_users_def)
  ultimately show ?thesis
    using assms(2) by auto
qed

theorem register_invalid_input_witness:
  "js_length (body_password ex_short_password) = Some 7
   \<and> pg_app POST_users = Some (run_route [] pg_post_users)
   \<and> run_route [] pg_post_users ex_env ex_store ex_short_password
       = (Json 400 (ErrorBody msg_register_invalid), ex_store)
   \<and> my_app POST_users = Some (run_route [] my_post_users)
   \<and> run_route [] my_post_users ex_env ex_store ex_request
       = (Json 400 (ErrorBody msg_register_invalid), ex_store)"
  using register_invalid_input
      [of ex_short_password "run_route [] pg_post_users" ex_env ex_store]
    register_invalid_input [of ex_request "run_route [] my_post_users" ex_env ex_store]
  by (simp add: ex_short_password_def ex_request_def ascii_def)

lemma count_distinct_email:
  "distinct (map u_email rs) \<Longrightarrow> em \<in> set (map u_email rs)
   \<Longrightarrow> length (filter (\<lambda>u. u_email u = em) rs) = 1"
proof (induction rs)
  case Nil
  then show ?case by simp
next
  case (Cons r rs)
  show ?case
  proof (cases "u_email r = em")
    case True
    with Cons.prems have "em \<notin> set (map u_email rs)" by auto
    then have "filter (\<lambda>u. u_email u = em) rs = []"
      by (auto simp: filter_empty_conv)
    with True show ?thesis by simp
  next
    case False
    with Cons show ?thesis by auto
  qed
qed

lemma insert_user_Inr:
  assumes "insert_user db name em digest = Inr (i, db')" and "store_inv db"
  shows "store_inv db' \<and> em \<in> set (map u_email (rows db'))"
proof -
  from assms(1) have new: "em \<notin> set (map u_email (rows db))"
    and db': "db' = db\<lparr>rows := rows db @
                       [\<lparr>u_id = next_id db, u_name = name, u_email = em,
                         u_password = digest, u_role = role_default db\<rparr>],
                   next_id := Suc (next_id db)\<rparr>"
    by (auto simp: insert_user_def split: if_splits)
  from assms(2) have fresh: "next_id db \<notin> set (map u_id (rows db))"
    by (auto simp: store_inv_def list_all_iff)
  show ?thesis
    using assms(2) new fresh
    by (auto simp: db' store_inv_def list_all_iff less_Suc_eq)
qed

lemma pg_pool_query_Inr: "pg_pool_query e r = Inr x \<Longrightarrow> r = Inr x"
  by (auto simp: pg_pool_query_def split: option.splits sum.splits db_error.splits)

lemma my_conn_query_Inr: "my_conn_query e r = Inr x \<Longrightarrow> r = Inr x"
  by (auto simp: my_conn_query_def split: option.splits sum.splits db_error.splits)

lemma pg_post_users_created:
  assumes "pg_post_users e db req = (Json 201 b, db')" and "store_inv db"
  shows "store_inv db' \<and> body_email req \<in> set (map u_email (rows db'))"
proof -
  from assms(1) obtain digest i where
    "pg_pool_query e (insert_user db (body_name req) (body_email req) digest) = Inr (i, db')"
    by (auto simp: pg_post_users_def pg_post_users_catch_def Let_def
             split: if_splits option.splits sum.splits prod.splits)
  then have "insert_user db (body_name req) (body_email req) digest = Inr (i, db')"
    by (rule pg_pool_query_Inr)
  then show ?thesis
    using assms(2) by (rule insert_user_Inr)
qed

lemma my_post_users_created:
  assumes "my_post_users e db req = (Json 201 b, db')" and "store_inv db"
  shows "store_inv db' \<and> body_email req \<in> set (map u_email (rows db'))"
proof -
  from assms(1) obtain digest i where
    "my_conn_query e (insert_user db (body_name req) (body_email req) digest) = Inr (i, db')"
    by (auto simp: my_post_users_def my_post_users_catch_def Let_def
             split: if_splits option.splits sum.splits prod.splits)
  then have "insert_user db (body_name req) (body_email req) digest = Inr (i, db')"
    by (rule my_conn_query_Inr)
  then show ?thesis
    using assms(2) by (rule insert_user_Inr)
qed

text \<open>
  Claim C4. Take a registration that is in order. When its store call throws (in the
  second file, also when no connection can be had), the answer is 409 if the code of
  the error is the unique-violation code of the driver (\<open>23505\<close> in index.js,
  \<open>ER_DUP_ENTRY\<close> in the second file) and 500 for every other error, and the store is as
  it was. When a registration has succeeded, a second one with the same email, the
  hasher accepting its password and the store being reachable, is answered 409 and
  leaves the store as it was, with exactly one record for that email.
\<close>

theorem register_store_errors:
  assumes "truthy (body_name req)" and "truthy (body_email req)"
    and "truthy (body_password req)" and "\<not> length_lt (body_password req) 8"
  shows
    "(bcrypt_hash e (body_password req) 10 = Some digest
      \<and> pg_pool_query e (insert_user db (body_name req) (body_email req) digest) = Inl code
        \<longrightarrow> pg_post_users e db req
              = (if code = JStr (ascii ''23505'')
                 then Json 409 (ErrorBody msg_email_in_use)
                 else Json 500 (ErrorBody msg_server_error), db))
     \<and> (my_getConnection e = Inl code
         \<or> (my_getConnection e = Inr ()
             \<and> bcrypt_hash e (body_password req) 10 = Some digest
             \<and> my_conn_query e (insert_user db (body_name req) (body_email req) digest)
                 = Inl code)
        \<longrightarrow> my_post_users e db req
              = (if code = JStr (ascii ''ER_DUP_ENTRY'')
                 then Json 409 (ErrorBody msg_email_in_use)
                 else Json 500 (ErrorBody msg_server_error), db))
     \<and> (store_inv db0 \<and> body_email req0 = body_email req
         \<and> (pg_post_users e0 db0 req0 = (Json 201 b, db)
              \<or> my_post_users e0 db0 req0 = (Json 201 b, db))
         \<and> bcrypt_hash e (body_password req) 10 = Some digest
         \<and> pool_fault e = None \<and> db_fault e = None
        \<longrightarrow> pg_post_users e db req = (Json 409 (ErrorBody msg_email_in_use), db)
          \<and> my_post_users e db req = (Json 409 (ErrorBody msg_email_in_use), db)
          \<and> length (filter (\<lambda>u. u_email u = body_email req) (rows db)) = 1)"
proof (intro conjI impI)
  assume "bcrypt_hash e (body_password req) 10 = Some digest
      \<and> pg_pool_query e (insert_user db (body_name req) (body_email req) digest) = Inl code"
  then show "pg_post_users e db req
              = (if code = JStr (ascii ''23505'')
                 then Json 409 (ErrorBody msg_email_in_use)
                 else Json 500 (ErrorBody msg_server_error), db)"
    using assms by (simp add: pg_post_users_def pg_post_users_catch_def)
next
  assume "my_getConnection e = Inl code
         \<or> (my_getConnection e = Inr ()
             \<and> bcrypt_hash e (body_password req) 10 = Some digest
             \<and> my_conn_query e (insert_user db (body_name req) (body_email req) digest)
                 = Inl code)"
  then show "my_post_users e db req
              = (if code = JStr (ascii ''ER_DUP_ENTRY'')
                 then Json 409 (ErrorBody msg_email_in_use)
                 else Json 500 (ErrorBody msg_server_error), db)"
    using assms by (auto simp: my_post_users_def my_post_users_catch_def)
next
  assume second: "store_inv db0 \<and> body_email req0 = body_email req
         \<and> (pg_post_users e0 db0 req0 = (Json 201 b, db)
              \<or> my_post_users e0 db0 req0 = (Json 201 b, db))
         \<and> bcrypt_hash e (body_password req) 10 = Some digest
         \<and> pool_fault e = None \<and> db_fault e = None"
  then have stored: "store_inv db \<and> body_email req \<in> set (map u_email (rows db))"
    using pg_post_users_created [of e0 db0 req0 b db]
      my_post_users_created [of e0 db0 req0 b db]
    by auto
  then have dup: "insert_user db (body_name req) (body_email req) digest = Inl UniqueViolation"
    by (simp add: insert_user_def)
  show "pg_post_users e db req = (Json 409 (ErrorBody msg_email_in_use), db)"
    using assms second dup
    by (simp add: pg_post_users_def pg_post_users_catch_def pg_pool_query_def)
  show "my_post_users e db req = (Json 409 (ErrorBody msg_email_in_use), db)"
    using assms second dup
    by (simp add: my_post_users_def my_post_users_catch_def my_conn_query_def
          my_getConnection_def)
  show "length (filter (\<lambda>u. u_email u = body_email req) (rows db)) = 1"
    using stored by (intro count_distinct_email) (auto simp: store_inv_def)
qed

lemma ex_store_inv: "store_inv ex_store"
  by (simp add: store_inv_def ex_store_def ex_ann_def ex_bob_def ascii_def)

lemma ex_register_valid:
  "truthy (body_name ex_register)" "truthy (body_email ex_register)"
  "truthy (body_password ex_register)" "\<not> length_lt (body_password ex_register) 8"
  by (simp_all add: ex_register_def ex_request_def ascii_def length_lt_def)

lemma ex_register_hash:
  "bcrypt_hash ex_env (body_password ex_register) 10 = Some (ascii ''$2b$long enough'')"
  by (simp add: ex_register_def ex_request_def ex_env_def ascii_def)

lemma ex_register_first:
  "pg_post_users ex_env ex_store ex_register
     = (Json 201 (CreatedBody 3 (JStr (ascii ''Carol'')) (JStr (ascii ''carol@example.com''))),
        ex_store_carol)"
  using ex_register_valid ex_register_hash
  by (simp add: pg_post_users_def pg_pool_query_def insert_user_def)
     (simp add: ex_env_def ex_store_def ex_store_carol_def ex_ann_def ex_bob_def ex_carol_def
        ex_register_def ex_request_def ascii_def Let_def)

theorem register_store_errors_witness:
  "pg_post_users (ex_env\<lparr>db_fault := Some (JStr (ascii ''ECONNRESET''))\<rparr>) ex_store ex_register
     = (Json 500 (ErrorBody msg_server_error), ex_store)
   \<and> my_post_users (ex_env\<lparr>pool_fault := Some JUndefined\<rparr>) ex_store ex_register
       = (Json 500 (ErrorBody msg_server_error), ex_store)
   \<and> pg_post_users ex_env ex_store_carol ex_register
       = (Json 409 (ErrorBody msg_email_in_use), ex_store_carol)
   \<and> my_post_users ex_env ex_store_carol ex_register
       = (Json 409 (ErrorBody msg_email_in_use), ex_store_carol)
   \<and> length (filter (\<lambda>u. u_email u = body_email ex_register) (rows ex_store_carol)) = 1"
proof -
  have hash: "bcrypt_hash (ex_env\<lparr>db_fault := Some (JStr (ascii ''ECONNRESET''))\<rparr>)
                (body_password ex_register) 10 = Some (ascii ''$2b$long enough'')"
    "bcrypt_hash (ex_env\<lparr>pool_fault := Some JUndefined\<rparr>)
                (body_password ex_register) 10 = Some (ascii ''$2b$long enough'')"
    using ex_register_hash by (simp_all add: ex_env_def)
  have no_fault: "pool_fault ex_env = None" "db_fault ex_env = None"
    by (simp_all add: ex_env_def)
  have reset: "JStr (ascii ''ECONNRESET'') \<noteq> JStr (ascii ''23505'')"
    by (simp add: ascii_def)
  have undef: "JUndefined \<noteq> JStr (ascii ''ER_DUP_ENTRY'')"
    by simp
  show ?thesis
    using register_store_errors [OF ex_register_valid,
        where e = "ex_env\<lparr>db_fault := Some (JStr (ascii ''ECONNRESET''))\<rparr>"
          and digest = "ascii ''$2b$long enough''"
          and db = ex_store and code = "JStr (ascii ''ECONNRESET'')"]
      register_store_errors [OF ex_register_valid,
        where e = "ex_env\<lparr>pool_fault := Some JUndefined\<rparr>"
          and db = ex_store and code = JUndefined]
      register_store_errors [OF ex_register_valid,
        where e = ex_env and digest = "ascii ''$2b$long enough''"
          and db = ex_store_carol and ?db0.0 = ex_store and ?req0.0 = ex_register
          and ?e0.0 = ex_env
          and b = "CreatedBody 3 (JStr (ascii ''Carol'')) (JStr (ascii ''carol@example.com''))"]
      ex_register_first ex_register_hash hash ex_store_inv no_fault reset undef
    by (simp add: pg_pool_query_def my_getConnection_def)
qed

section \<open>Login and tokens\<close>














section \<open>Deleting a user\<close>

lemma filter_id_absent:
  "uid \<notin> set (map u_id rs) \<Longrightarrow> filter (\<lambda>u. u_id u \<noteq> uid) rs = rs
     \<and> filter (\<lambda>u. u_id u = uid) rs = []"
  by (induction rs) auto

lemma filter_id_present:
  assumes "uid \<in> set (map u_id rs)" and "distinct (map u_id rs)"
  shows "\<exists>ys u zs. rs = ys @ u # zs \<and> u_id u = uid
           \<and> filter (\<lambda>u. u_id u \<noteq> uid) rs = ys @ zs
           \<and> length (filter (\<lambda>u. u_id u = uid) rs) = 1"
proof -
  from assms(1) obtain ys u zs where split: "rs = ys @ u # zs" and u: "u_id u = uid"
    by (auto simp: in_set_conv_decomp)
  with assms(2) have "uid \<notin> set (map u_id ys)" "uid \<notin> set (map u_id zs)"
    by auto
  then have "filter (\<lambda>u. u_id u \<noteq> uid) rs = ys @ zs"
    "length (filter (\<lambda>u. u_id u = uid) rs) = 1"
    using filter_id_absent [of uid ys] filter_id_absent [of uid zs] split u
    by auto
  with split u show ?thesis by blast
qed

text \<open>
  Claim C7. Take a request to the delete route of either source file that
  \<open>authenticateToken\<close> lets pass with an identity of role \<open>admin\<close>, the store being
  reachable. When no record has the id of the request, the answer is 404 and the store
  is as it was. When a record has it, ids being unique, the answer is 204 without a
  body, and the store afterwards is the store before without that one record: the
  records before and after it are as they were, in their order.
\<close>

theorem delete_user_effect:
  assumes "pg_app DELETE_users_id = Some f \<or> my_app DELETE_users_id = Some f"
    and "authenticateToken e req = Next req'" and "user req' = Some a"
    and "c_role a = JStr (ascii ''admin'')"
    and "pool_fault e = None" and "db_fault e = None"
  shows "(params_id req \<notin> set (map u_id (rows db))
           \<longrightarrow> f e db req = (Json 404 (ErrorBody msg_user_not_found), db))
     \<and> (params_id req \<in> set (map u_id (rows db)) \<and> distinct (map u_id (rows db))
           \<longrightarrow> f e db req
                 = (Send 204, db\<lparr>rows := filter (\<lambda>u. u_id u \<noteq> params_id req) (rows db)\<rparr>)
             \<and> (\<exists>ys u zs. rows db = ys @ u # zs \<and> u_id u = params_id req
                   \<and> filter (\<lambda>u. u_id u \<noteq> params_id req) (rows db) = ys @ zs))"
proof -
  obtain au where req': "req' = req\<lparr>user := Some au\<rparr>"
    using authenticateToken_Next [OF assms(2)] by blast
  then have pid: "params_id req' = params_id req"
    by simp
  have admin: "authorizeAdmin req' = Next req'"
    using assms(3,4) by (simp add: authorizeAdmin_def)
  have route: "f e db req = pg_delete_user e db req' \<or> f e db req = my_delete_user e db req'"
    using assms(1,2) admin by auto
  have absent: "params_id req \<notin> set (map u_id (rows db))
                  \<Longrightarrow> pg_delete_user e db req' = (Json 404 (ErrorBody msg_user_not_found), db)
                    \<and> my_delete_user e db req' = (Json 404 (ErrorBody msg_user_not_found), db)"
    using assms(5,6) pid filter_id_absent [of "params_id req" "rows db"]
    by (simp add: pg_delete_user_def my_delete_user_def pg_pool_query_def my_conn_query_def
          my_getConnection_def delete_user_def)
  have present:
    "pg_delete_user e db req'
       = (Send 204, db\<lparr>rows := filter (\<lambda>u. u_id u \<noteq> params_id req) (rows db)\<rparr>)
     \<and> my_delete_user e db req'
       = (Send 204, db\<lparr>rows := filter (\<lambda>u. u_id u \<noteq> params_id req) (rows db)\<rparr>)
     \<and> (\<exists>ys u zs. rows db = ys @ u # zs \<and> u_id u = params_id req
           \<and> filter (\<lambda>u. u_id u \<noteq> params_id req) (rows db) = ys @ zs)"
    if stored: "params_id req \<in> set (map u_id (rows db))"
      and uniq: "distinct (map u_id (rows db))"
  proof -
    obtain ys u zs where parts: "rows db = ys @ u # zs" "u_id u = params_id req"
      "filter (\<lambda>u. u_id u \<noteq> params_id req) (rows db) = ys @ zs"
      and one: "length (filter (\<lambda>u. u_id u = params_id req) (rows db)) = 1"
      using filter_id_present [OF stored uniq] by blast
    from one have ne: "filter (\<lambda>u. u_id u = params_id req) (rows db) \<noteq> []"
      by auto
    have "pg_delete_user e db req'
       = (Send 204, db\<lparr>rows := filter (\<lambda>u. u_id u \<noteq> params_id req) (rows db)\<rparr>)"
      using assms(5,6) pid ne
      by (simp add: pg_delete_user_def pg_pool_query_def delete_user_def)
    moreover have "my_delete_user e db req'
       = (Send 204, db\<lparr>rows := filter (\<lambda>u. u_id u \<noteq> params_id req) (rows db)\<rparr>)"
      using assms(5,6) pid ne
      by (simp add: my_delete_user_def my_conn_query_def my_getConnection_def
            delete_user_def)
    ultimately show ?thesis
      using parts by blast
  qed
  show ?thesis
    using route absent present by metis
qed

lemma ex_delete_authenticated:
  "authenticateToken ex_env ex_delete_bob = Next (ex_delete_bob\<lparr>user := Some ex_claims\<rparr>)"
  "authenticateToken ex_env ex_delete_nobody
     = Next (ex_delete_nobody\<lparr>user := Some ex_claims\<rparr>)"
  by (simp_all add: authenticateToken_def jwt_verify_def bearer_token_Bearer
        ex_token_no_space ex_delete_bob_def ex_delete_nobody_def ex_bearer_request_def
        ex_env_def ex_claims_def)

theorem delete_user_effect_witness:
  "pg_app DELETE_users_id
     = Some (run_route [authenticateToken, \<lambda>e. authorizeAdmin] pg_delete_user)
   \<and> run_route [authenticateToken, \<lambda>e. authorizeAdmin] pg_delete_user
         ex_env ex_store ex_delete_nobody
       = (Json 404 (ErrorBody msg_user_not_found), ex_store)
   \<and> run_route [authenticateToken, \<lambda>e. authorizeAdmin] pg_delete_user
         ex_env ex_store ex_delete_bob
       = (Send 204, ex_store\<lparr>rows := [ex_ann]\<rparr>)"
proof -
  have route: "pg_app DELETE_users_id
         = Some (run_route [authenticateToken, \<lambda>e. authorizeAdmin] pg_delete_user)
       \<or> my_app DELETE_users_id
         = Some (run_route [authenticateToken, \<lambda>e. authorizeAdmin] pg_delete_user)"
    by simp
  have admin: "user (ex_delete_bob\<lparr>user := Some ex_claims\<rparr>) = Some ex_claims"
    "user (ex_delete_nobody\<lparr>user := Some ex_claims\<rparr>) = Some ex_claims"
    "c_role ex_claims = JStr (ascii ''admin'')"
    by (simp_all add: ex_claims_def)
  have reachable: "pool_fault ex_env = None" "db_fault ex_env = None"
    by (simp_all add: ex_env_def)
  show ?thesis
    using delete_user_effect
        [OF route ex_delete_authenticated(2) admin(2) admin(3) reachable, of ex_store]
      delete_user_effect
        [OF route ex_delete_authenticated(1) admin(1) admin(3) reachable, of ex_store]
    by (simp add: ex_store_def ex_ann_def ex_bob_def ex_delete_bob_def ex_delete_nobody_def
          ex_bearer_request_def ex_request_def)
qed

section \<open>The two source files side by side\<close>

lemma run_route_cong:
  "(\<And>req'. h e db req' = h' e db req')
   \<Longrightarrow> run_route gs h e db req = run_route gs h' e db req"
  by (induction gs arbitrary: req) (auto split: outcome.splits)

lemma post_users_agree:
  assumes "pool_fault e \<noteq> Some (JStr (ascii ''23505''))"
    and "pool_fault e \<noteq> Some (JStr (ascii ''ER_DUP_ENTRY''))"
    and "db_fault e \<noteq> Some (JStr (ascii ''23505''))"
    and "db_fault e \<noteq> Some (JStr (ascii ''ER_DUP_ENTRY''))"
  shows "pg_post_users e db req = my_post_users e db req"
  using assms
  by (auto simp: pg_post_users_def my_post_users_def pg_post_users_catch_def
        my_post_users_catch_def pg_pool_query_def my_conn_query_def my_getConnection_def
        Let_def
      split: option.splits sum.splits db_error.splits)

lemma post_login_agree: "pg_post_login e db req = my_post_login e db req"
  by (auto simp: pg_post_login_def my_post_login_def pg_pool_query_def my_conn_query_def
        my_getConnection_def Let_def
      split: option.splits sum.splits list.splits)

lemma put_password_agree: "pg_put_password e db req = my_put_password e db req"
  by (auto simp: pg_put_password_def my_put_password_def pg_pool_query_def
        my_conn_query_def my_getConnection_def Let_def
      split: option.splits sum.splits)

lemma get_users_agree: "pg_get_users e db req = my_get_users e db req"
  by (auto simp: pg_get_users_def my_get_users_def pg_pool_query_def my_conn_query_def
        my_getConnection_def
      split: option.splits sum.splits)

lemma delete_user_agree: "pg_delete_user e db req = my_delete_user e db req"
  by (auto simp: pg_delete_user_def my_delete_user_def pg_pool_query_def
        my_conn_query_def my_getConnection_def Let_def
      split: option.splits sum.splits)

text \<open>
  Claim C9. index.js has no update-user route and the second source file has one. On
  each of the other routes (register, login, change password, list users, delete user)
  the two files give the same answer and leave the same store, on every request, from
  the same store and in the same environment, as long as no error that the driver
  throws for reasons of its own carries the unique-violation code of either driver.
\<close>

theorem variants_agree:
  assumes "r \<noteq> PUT_users_id" and "pg_app r = Some f" and "my_app r = Some g"
    and "pool_fault e \<noteq> Some (JStr (ascii ''23505''))"
    and "pool_fault e \<noteq> Some (JStr (ascii ''ER_DUP_ENTRY''))"
    and "db_fault e \<noteq> Some (JStr (ascii ''23505''))"
    and "db_fault e \<noteq> Some (JStr (ascii ''ER_DUP_ENTRY''))"
  shows "f e db req = g e db req
         \<and> pg_app PUT_users_id = None \<and> my_app PUT_users_id \<noteq> None"
proof (cases r)
  case POST_users
  then show ?thesis
    using assms post_users_agree [of e] by auto
next
  case POST_login
  then show ?thesis
    using assms post_login_agree by auto
next
  case PUT_users_me_password
  then show ?thesis
    using assms run_route_cong [of pg_put_password e db my_put_password]
      put_password_agree
    by auto
next
  case GET_users
  then show ?thesis
    using assms run_route_cong [of pg_get_users e db my_get_users] get_users_agree
    by auto
next
  case PUT_users_id
  then show ?thesis
    using assms by simp
next
  case DELETE_users_id
  then show ?thesis
    using assms run_route_cong [of pg_delete_user e db my_delete_user] delete_user_agree
    by auto
qed

theorem variants_agree_witness:
  "POST_users \<noteq> PUT_users_id
   \<and> pg_app POST_users = Some (run_route [] pg_post_users)
   \<and> my_app POST_users = Some (run_route [] my_post_users)
   \<and> pool_fault ex_env = None \<and> db_fault ex_env = None
   \<and> run_route [] my_post_users ex_env ex_store ex_register
       = (Json 201 (CreatedBody 3 (JStr (ascii ''Carol'')) (JStr (ascii ''carol@example.com''))),
          ex_store_carol)"
proof -
  have reachable: "pool_fault ex_env = None" "db_fault ex_env = None"
    by (simp_all add: ex_env_def)
  show ?thesis
    using variants_agree [of POST_users "run_route [] pg_post_users"
        "run_route [] my_post_users" ex_env ex_store ex_register]
      ex_register_first reachable
    by simp
qed

section \<open>What the answers show of the store\<close>

lemma run_route_fst:
  "(\<And>req'. fst (h e db1 req') = fst (h e db2 req'))
   \<Longrightarrow> fst (run_route gs h e db1 req) = fst (run_route gs h e db2 req)"
  by (induction gs arbitrary: req) (auto split: outcome.splits)

lemma public_ids:
  "list_all2 (\<lambda>u v. public_of u = public_of v) xs ys \<Longrightarrow> map u_id xs = map u_id ys"
  by (induction rule: list_all2_induct) (auto simp: public_of_def)

lemma public_emails:
  "list_all2 (\<lambda>u v. public_of u = public_of v) xs ys \<Longrightarrow> map u_email xs = map u_email ys"
  by (induction rule: list_all2_induct) (auto simp: public_of_def)

lemma public_rows:
  "list_all2 (\<lambda>u v. public_of u = public_of v) xs ys
   \<Longrightarrow> map public_of xs = map public_of ys"
  by (induction rule: list_all2_induct) auto

lemma public_count:
  "list_all2 (\<lambda>u v. public_of u = public_of v) xs ys
   \<Longrightarrow> length (filter (\<lambda>u. u_id u = i) xs) = length (filter (\<lambda>u. u_id u = i) ys)"
  by (induction rule: list_all2_induct) (auto simp: public_of_def)

lemma public_other_emails:
  "list_all2 (\<lambda>u v. public_of u = public_of v) xs ys
   \<Longrightarrow> map u_email (filter (\<lambda>u. u_id u \<noteq> i) xs)
       = map u_email (filter (\<lambda>u. u_id u \<noteq> i) ys)"
  by (induction rule: list_all2_induct) (auto simp: public_of_def)

lemma public_select:
  assumes "list_all2 (\<lambda>u v. public_of u = public_of v) xs ys"
    and "list_all2 (\<lambda>u v. cmp (u_password u) = cmp (u_password v)) xs ys"
  shows "list_all2 (\<lambda>u v. public_of u = public_of v \<and> cmp (u_password u) = cmp (u_password v))
           (filter (\<lambda>u. u_email u = em) xs) (filter (\<lambda>u. u_email u = em) ys)"
proof -
  from assms have "list_all2 (\<lambda>u v. public_of u = public_of v
                      \<and> cmp (u_password u) = cmp (u_password v)) xs ys"
    by (simp add: list_all2_conv_all_nth)
  then show ?thesis
    by (induction rule: list_all2_induct) (auto simp: public_of_def)
qed

lemma post_users_public:
  assumes "list_all2 (\<lambda>u v. public_of u = public_of v) (rows db1) (rows db2)"
    and "next_id db1 = next_id db2"
  shows "fst (pg_post_users e db1 req) = fst (pg_post_users e db2 req)"
    and "fst (my_post_users e db1 req) = fst (my_post_users e db2 req)"
  using public_emails [OF assms(1)] assms(2)
  by (auto simp: pg_post_users_def my_post_users_def insert_user_def pg_pool_query_def
        my_conn_query_def Let_def
      split: option.splits sum.splits db_error.splits)

lemma post_login_public:
  assumes "list_all2 (\<lambda>u v. public_of u = public_of v) (rows db1) (rows db2)"
    and "list_all2 (\<lambda>u v. bcrypt_compare e (body_password req) (u_password u)
                         = bcrypt_compare e (body_password req) (u_password v))
           (rows db1) (rows db2)"
  shows "fst (pg_post_login e db1 req) = fst (pg_post_login e db2 req)"
    and "fst (my_post_login e db1 req) = fst (my_post_login e db2 req)"
proof -
  have sel: "list_all2 (\<lambda>u v. public_of u = public_of v
                 \<and> bcrypt_compare e (body_password req) (u_password u)
                   = bcrypt_compare e (body_password req) (u_password v))
           (select_by_email db1 (body_email req)) (select_by_email db2 (body_email req))"
    unfolding select_by_email_def
    using assms by (rule public_select)
  show "fst (pg_post_login e db1 req) = fst (pg_post_login e db2 req)"
    using sel
    by (cases "select_by_email db1 (body_email req)";
        cases "select_by_email db2 (body_email req)")
       (auto simp: pg_post_login_def pg_pool_query_def public_of_def Let_def
          split: option.splits)
  show "fst (my_post_login e db1 req) = fst (my_post_login e db2 req)"
    using sel
    by (cases "select_by_email db1 (body_email req)";
        cases "select_by_email db2 (body_email req)")
       (auto simp: my_post_login_def my_conn_query_def public_of_def Let_def
          split: option.splits sum.splits)
qed

lemma put_password_public:
  "fst (pg_put_password e db1 req) = fst (pg_put_password e db2 req)"
  "fst (my_put_password e db1 req) = fst (my_put_password e db2 req)"
  by (auto simp: pg_put_password_def my_put_password_def pg_pool_query_def
        my_conn_query_def update_password_def Let_def
      split: option.splits sum.splits)

lemma get_users_public:
  assumes "list_all2 (\<lambda>u v. public_of u = public_of v) (rows db1) (rows db2)"
  shows "fst (pg_get_users e db1 req) = fst (pg_get_users e db2 req)"
    and "fst (my_get_users e db1 req) = fst (my_get_users e db2 req)"
  using public_rows [OF assms]
  by (auto simp: pg_get_users_def my_get_users_def pg_pool_query_def my_conn_query_def
        select_public_def
      split: option.splits sum.splits)

lemma delete_user_public:
  assumes "list_all2 (\<lambda>u v. public_of u = public_of v) (rows db1) (rows db2)"
  shows "fst (pg_delete_user e db1 req) = fst (pg_delete_user e db2 req)"
    and "fst (my_delete_user e db1 req) = fst (my_delete_user e db2 req)"
  using public_count [OF assms, of "params_id req"]
  by (auto simp: pg_delete_user_def my_delete_user_def pg_pool_query_def
        my_conn_query_def delete_user_def Let_def
      split: option.splits sum.splits)

lemma put_user_public:
  assumes "list_all2 (\<lambda>u v. public_of u = public_of v) (rows db1) (rows db2)"
  shows "fst (my_put_user e db1 req) = fst (my_put_user e db2 req)"
  using public_count [OF assms, of "params_id req"] public_ids [OF assms]
    public_other_emails [OF assms, of "params_id req"]
  by (auto simp: my_put_user_def my_conn_query_def update_user_def Let_def
      split: option.splits sum.splits db_error.splits)

lemma public_of_eq:
  "(public_of u = public_of v)
     = (u_id u = u_id v \<and> u_name u = u_name v \<and> u_email u = u_email v \<and> u_role u = u_role v)"
  by (auto simp: public_of_def)

text \<open>
  Claim C8. On a request to the list route of either source file that
  \<open>authenticateToken\<close> lets pass with an identity of role \<open>admin\<close>, the answer is 200
  exactly when the store is reachable, and its body is then the list of the id, name,
  email and role of every record, in the order of the store. No answer of any route
  shows a password digest: two stores whose records agree on id, name, email and role
  get the same answer to the same request on every route of either file, whatever their
  digests are, provided for a login that the hasher's comparison of the request's
  password with the digests comes out the same.
\<close>

theorem list_users_hides_digests:
  "((pg_app GET_users = Some f \<or> my_app GET_users = Some f)
     \<and> authenticateToken e req = Next req' \<and> user req' = Some a
     \<and> c_role a = JStr (ascii ''admin'')
    \<longrightarrow> f e db req
         = (if pool_fault e = None \<and> db_fault e = None
            then (Json 200
                    (RowsBody
                       (map (\<lambda>u. \<lparr>r_id = u_id u, r_name = u_name u, r_email = u_email u,
                                   r_role = u_role u\<rparr>) (rows db))), db)
            else (Json 500 (ErrorBody msg_server_error), db)))
   \<and> ((pg_app r = Some g \<or> my_app r = Some g)
       \<and> list_all2 (\<lambda>u v. u_id u = u_id v \<and> u_name u = u_name v \<and> u_email u = u_email v
                            \<and> u_role u = u_role v) (rows db1) (rows db2)
       \<and> next_id db1 = next_id db2
       \<and> (r = POST_login
            \<longrightarrow> list_all2 (\<lambda>u v. bcrypt_compare e (body_password req) (u_password u)
                                  = bcrypt_compare e (body_password req) (u_password v))
                  (rows db1) (rows db2))
      \<longrightarrow> fst (g e db1 req) = fst (g e db2 req))"
proof (intro conjI impI)
  assume h: "(pg_app GET_users = Some f \<or> my_app GET_users = Some f)
     \<and> authenticateToken e req = Next req' \<and> user req' = Some a
     \<and> c_role a = JStr (ascii ''admin'')"
  then have "f e db req = pg_get_users e db req' \<or> f e db req = my_get_users e db req'"
    by (auto simp: authorizeAdmin_def)
  then show "f e db req
         = (if pool_fault e = None \<and> db_fault e = None
            then (Json 200
                    (RowsBody
                       (map (\<lambda>u. \<lparr>r_id = u_id u, r_name = u_name u, r_email = u_email u,
                                   r_role = u_role u\<rparr>) (rows db))), db)
            else (Json 500 (ErrorBody msg_server_error), db))"
    by (auto simp: pg_get_users_def my_get_users_def pg_pool_query_def my_conn_query_def
          my_getConnection_def select_public_def public_of_def
        split: option.splits)
next
  assume h: "(pg_app r = Some g \<or> my_app r = Some g)
       \<and> list_all2 (\<lambda>u v. u_id u = u_id v \<and> u_name u = u_name v \<and> u_email u = u_email v
                            \<and> u_role u = u_role v) (rows db1) (rows db2)
       \<and> next_id db1 = next_id db2
       \<and> (r = POST_login
            \<longrightarrow> list_all2 (\<lambda>u v. bcrypt_compare e (body_password req) (u_password u)
                                  = bcrypt_compare e (body_password req) (u_password v))
                  (rows db1) (rows db2))"
  then have pub: "list_all2 (\<lambda>u v. public_of u = public_of v) (rows db1) (rows db2)"
    and nid: "next_id db1 = next_id db2"
    and app: "pg_app r = Some g \<or> my_app r = Some g"
    by (simp_all add: public_of_eq)
  show "fst (g e db1 req) = fst (g e db2 req)"
  proof (cases r)
    case POST_users
    then show ?thesis
      using app post_users_public [OF pub nid] by auto
  next
    case POST_login
    with h have "list_all2 (\<lambda>u v. bcrypt_compare e (body_password req) (u_password u)
                                  = bcrypt_compare e (body_password req) (u_password v))
                  (rows db1) (rows db2)"
      by simp
    then show ?thesis
      using POST_login app post_login_public [OF pub] by auto
  next
    case PUT_users_me_password
    then show ?thesis
      using app run_route_fst [of pg_put_password e db1 db2]
        run_route_fst [of my_put_password e db1 db2] put_password_public
      by auto
  next
    case GET_users
    then show ?thesis
      using app run_route_fst [of pg_get_users e db1 db2]
        run_route_fst [of my_get_users e db1 db2] get_users_public [OF pub]
      by auto
  next
    case PUT_users_id
    then show ?thesis
      using app run_route_fst [of my_put_user e db1 db2] put_user_public [OF pub]
      by auto
  next
    case DELETE_users_id
    then show ?thesis
      using app run_route_fst [of pg_delete_user e db1 db2]
        run_route_fst [of my_delete_user e db1 db2] delete_user_public [OF pub]
      by auto
  qed
qed

theorem list_users_hides_digests_witness:
  "run_route [authenticateToken, \<lambda>e. authorizeAdmin] pg_get_users
       ex_env ex_store ex_bearer_request
     = (Json 200
          (RowsBody
             [\<lparr>r_id = 1, r_name = JStr (ascii ''Ann''),
               r_email = JStr (ascii ''ann@example.com''), r_role = JStr (ascii ''admin'')\<rparr>,
              \<lparr>r_id = 2, r_name = JStr (ascii ''Bob''),
               r_email = JStr (ascii ''bob@example.com''), r_role = JStr (ascii ''user'')\<rparr>]),
        ex_store)
   \<and> fst (run_route [authenticateToken, \<lambda>e. authorizeAdmin] my_get_users
            ex_env ex_store ex_bearer_request)
       = fst (run_route [authenticateToken, \<lambda>e. authorizeAdmin] my_get_users
                ex_env ex_store_other ex_bearer_request)
   \<and> fst (run_route [] pg_post_login ex_env ex_store ex_login_wrong)
       = fst (run_route [] pg_post_login ex_env ex_store_other ex_login_wrong)"
proof -
  have admin: "user (ex_bearer_request\<lparr>user := Some ex_claims\<rparr>) = Some ex_claims"
    "c_role ex_claims = JStr (ascii ''admin'')"
    by (simp_all add: ex_claims_def)
  have reachable: "pool_fault ex_env = None" "db_fault ex_env = None"
    by (simp_all add: ex_env_def)
  have pub: "list_all2 (\<lambda>u v. u_id u = u_id v \<and> u_name u = u_name v \<and> u_email u = u_email v
                            \<and> u_role u = u_role v) (rows ex_store) (rows ex_store_other)"
    "next_id ex_store = next_id ex_store_other"
    by (simp_all add: ex_store_def ex_store_other_def)
  have cmp: "list_all2 (\<lambda>u v. bcrypt_compare ex_env (body_password ex_login_wrong) (u_password u)
                            = bcrypt_compare ex_env (body_password ex_login_wrong) (u_password v))
               (rows ex_store) (rows ex_store_other)"
    by (simp add: ex_store_def ex_store_other_def ex_ann_def ex_bob_def ex_env_def
          ex_login_wrong_def ex_request_def ascii_def)
  show ?thesis
    using list_users_hides_digests
        [of "run_route [authenticateToken, \<lambda>e. authorizeAdmin] pg_get_users" ex_env
            ex_bearer_request "ex_bearer_request\<lparr>user := Some ex_claims\<rparr>" ex_claims
            ex_store GET_users
            "run_route [authenticateToken, \<lambda>e. authorizeAdmin] my_get_users"
            ex_store ex_store_other]
      list_users_hides_digests
        [of "run_route [authenticateToken, \<lambda>e. authorizeAdmin] pg_get_users" ex_env
            ex_login_wrong "ex_bearer_request\<lparr>user := Some ex_claims\<rparr>" ex_claims
            ex_store POST_login "run_route [] pg_post_login" ex_store ex_store_other]
      ex_authenticated admin reachable pub cmp
    by (simp add: ex_store_def ex_ann_def ex_bob_def)
qed

end
